theory Spec2Isabelle
  imports Main "HOL-Library.Word"
begin

unbundle bit_operations_syntax

section \<open>The Z180 mini-ITX board emulator: bus, PPI, port decode, interrupts, scheduler\<close>

text \<open>
  A shallow embedding of the board file of the emulator (the second document of
  \<^verbatim>\<open>src/wd17xx.h\<close>, from the platform comment on). The file's static variables are the
  fields of the record \<open>machine\<close>; every function of the file that writes one of them
  takes the machine and returns the new one. What a function prints or which external
  routine it calls is returned as a list of \<open>event\<close>s, in the order of the source.
  The external collaborators (MMU and I/O controller, CPU engine, DMA engine, floppy,
  IDE and SD engines) are not part of the file: they are the fields of the record
  \<open>env\<close>, functions over an external state \<open>'x\<close> that the machine carries in \<open>ext\<close>.
\<close>

subsection \<open>Data\<close>

type_synonym u8 = "8 word"
type_synonym u16 = "16 word"
type_synonym u32 = "32 word"

text \<open>
  Modelled from the spec: the CPU context \<open>Z180Context\<close> is declared in
  \<^verbatim>\<open>libz180/z180.h\<close>, which is not part of the sources. The board file reads three of
  its fields: \<open>M1\<close> (the CPU signals that the current read is an opcode fetch) and the
  two interrupt-enable flags \<open>IFF1\<close> and \<open>IFF2\<close>. They are only tested against zero.
\<close>

record Z180Context =
  M1 :: u8
  IFF1 :: u8
  IFF2 :: u8

text \<open>
  \<open>ram\<close> and \<open>rom\<close> are the arrays \<^verbatim>\<open>ram[1024 * 1024]\<close> and \<^verbatim>\<open>rom[512 * 1024]\<close>,
  as functions from the index to the byte. Every index the code forms is masked below
  the size of the array (lemmas \<open>ram_index_in_range\<close> and \<open>rom_index_in_range\<close>), so no
  access is out of range. \<open>sdcard\<close> is the pointer of that name: \<open>True\<close> when it is
  not NULL. \<open>rstate\<close> and \<open>old_cs\<close> are the static locals of \<^verbatim>\<open>mem_read\<close> and
  \<^verbatim>\<open>ppi_recalc\<close>. \<open>trace\<close> is a C int.
\<close>

record 'x machine =
  ram :: "u32 \<Rightarrow> u8"
  rom :: "u32 \<Rightarrow> u8"
  port_a :: u8
  port_b :: u8
  port_c :: u8
  port_ctl :: u8
  fast :: u8
  int_recalc :: u8
  leds :: u8
  sdcard :: bool
  ide :: u8
  live_irq :: u8
  trace :: u32
  rstate :: u8
  old_cs :: u32
  cpu_z180 :: Z180Context
  ext :: 'x

text \<open>
  What the file prints and which external routines it calls. A \<open>Stderr_\<close> or
  \<open>Stdout_\<close> event stands for the line the source prints there, with the values it
  formats; for \<^verbatim>\<open>fdc_write\<close> the text depends on the register and the value only, so
  one event carries both; \<^verbatim>\<open>fdc_read\<close> prints the name of the register, then the value.
  A \<open>Call_\<close> event is a call of the external routine of that name with its arguments.
\<close>

datatype event =
    Stderr_write_to_ROM u32
  | Stderr_mem_R u16 u32 u8
  | Stderr_mem_W u16 u32 u8
  | Stderr_RETI
  | Stderr_fdc_write u8 u8
  | Stderr_fdc_read u8
  | Stderr_fdc_read_value u8
  | Stderr_invalid_ppi
  | Stderr_ide_read u16 u8
  | Stderr_ide_write u16 u8
  | Stderr_io_read u16
  | Stderr_io_write u16 u8
  | Stderr_unknown_read u16
  | Stderr_unknown_write u16 u8
  | Stdout_leds u8
  | Stdout_trace_set u32
  | Call_z180_read u16
  | Call_z180_write u16 u8
  | Call_z180_interrupt
  | Call_ide_read8 u16
  | Call_ide_write8 u16 u8
  | Call_fdc_read_ctrl
  | Call_fdc_read_data
  | Call_fdc_write_data u8
  | Call_fdc_write_dor u8
  | Call_fdc_write_drr u8
  | Call_fdc_set_terminal_count u8
  | Call_sd_spi_raise_cs
  | Call_sd_spi_lower_cs

text \<open>The calls the scheduler loop of \<^verbatim>\<open>main\<close> makes, with the cycles the engines report.\<close>

datatype sched_call =
    Call_z180_dma u32
  | Call_Z180Execute u32
  | Call_z180_event u32
  | Call_fdc_tick
  | Call_nanosleep
  | Call_poll_irq_event

text \<open>
  The external routines. The routines that take the I/O controller \<^verbatim>\<open>io\<close> and change
  it can also reach the CPU context it was created with, and can call back
  \<^verbatim>\<open>recalc_interrupts\<close>: they return the new external state, the new CPU context and
  whether they made that call. The engines the scheduler steps (\<open>z180_dma\<close>,
  \<open>Z180Execute\<close>, \<open>z180_event\<close>, \<open>fdc_tick\<close>) call back into the bus and port functions
  of this file, so they are functions of the whole machine.
\<close>

type_synonym 'x io_result = "'x \<times> Z180Context \<times> bool"

record 'x env =
  z180_mmu_translate :: "'x \<Rightarrow> u16 \<Rightarrow> u32"
  z180_iospace :: "'x \<Rightarrow> u16 \<Rightarrow> bool"
  z180_read :: "'x \<Rightarrow> Z180Context \<Rightarrow> u16 \<Rightarrow> u8 \<times> 'x io_result"
  z180_write :: "'x \<Rightarrow> Z180Context \<Rightarrow> u16 \<Rightarrow> u8 \<Rightarrow> 'x io_result"
  z180_interrupt :: "'x \<Rightarrow> Z180Context \<Rightarrow> 'x io_result"
  ide_read8 :: "'x \<Rightarrow> u16 \<Rightarrow> u8 \<times> 'x"
  ide_write8 :: "'x \<Rightarrow> u16 \<Rightarrow> u8 \<Rightarrow> 'x"
  fdc_read_ctrl :: "'x \<Rightarrow> u8 \<times> 'x"
  fdc_read_data :: "'x \<Rightarrow> u8 \<times> 'x"
  fdc_write_data :: "'x \<Rightarrow> u8 \<Rightarrow> 'x"
  fdc_write_dor :: "'x \<Rightarrow> u8 \<Rightarrow> 'x"
  fdc_write_drr :: "'x \<Rightarrow> u8 \<Rightarrow> 'x"
  fdc_set_terminal_count :: "'x \<Rightarrow> u8 \<Rightarrow> 'x"
  sd_spi_raise_cs :: "'x \<Rightarrow> 'x"
  sd_spi_lower_cs :: "'x \<Rightarrow> 'x"
  z180_dma :: "'x machine \<Rightarrow> u32 \<times> 'x machine"
  Z180Execute :: "'x machine \<Rightarrow> u32 \<times> 'x machine"
  z180_event :: "u32 \<Rightarrow> 'x machine \<Rightarrow> 'x machine"
  fdc_tick :: "'x machine \<Rightarrow> 'x machine"

subsection \<open>The trace bits and the start state\<close>

definition TRACE_MEM :: u32 where "TRACE_MEM = 0x000001"
definition TRACE_IO :: u32 where "TRACE_IO = 0x000002"
definition TRACE_UNK :: u32 where "TRACE_UNK = 0x000004"
definition TRACE_IRQ :: u32 where "TRACE_IRQ = 0x000020"
definition TRACE_IDE :: u32 where "TRACE_IDE = 0x000200"

text \<open>\<^verbatim>\<open>static uint16_t tstate_steps = 737\<close>; nothing in the file assigns it.\<close>

definition tstate_steps :: u16 where "tstate_steps = 737"

text \<open>
  The static initialisers of the file. What \<^verbatim>\<open>main\<close> sets up before the loop is a
  parameter: the random fill of the RAM, the ROM image, the options (\<open>fast\<close>, \<open>leds\<close>,
  \<open>trace\<close>, the SD card and IDE), the CPU context after reset and the external state.
\<close>

definition startup ::
  "(u32 \<Rightarrow> u8) \<Rightarrow> (u32 \<Rightarrow> u8) \<Rightarrow> u8 \<Rightarrow> u8 \<Rightarrow> u32 \<Rightarrow> bool \<Rightarrow> u8 \<Rightarrow> Z180Context \<Rightarrow> 'x \<Rightarrow> 'x machine" where
  "startup ram0 rom0 fast0 leds0 trace0 sd0 ide0 cpu0 x0 =
     \<lparr> ram = ram0, rom = rom0,
       port_a = 0xFF, port_b = 0xFF, port_c = 0xFF, port_ctl = 0x9B,
       fast = fast0, int_recalc = 0, leds = leds0, sdcard = sd0, ide = ide0,
       live_irq = 0, trace = trace0, rstate = 0, old_cs = 7,
       cpu_z180 = cpu0, ext = x0 \<rparr>"

subsection \<open>The physical bus\<close>

definition z180_phys_read :: "'x machine \<Rightarrow> u32 \<Rightarrow> u8" where
  "z180_phys_read m addr =
     (if addr AND 0x80000 \<noteq> 0 then
        (if port_a m AND 0x04 \<noteq> 0 then ram m (addr AND 0xFFFFF) else 0xFF)
      else if port_a m AND 0x08 \<noteq> 0 then rom m (addr AND 0x3FFFF)
      else ram m (addr AND 0xFFFFF))"

definition z180_phys_write :: "'x machine \<Rightarrow> u32 \<Rightarrow> u8 \<Rightarrow> event list \<times> 'x machine" where
  "z180_phys_write m addr0 val =
     (let addr = addr0 AND 0xFFFFF in
      if addr AND 0x80000 \<noteq> 0 then
        (if port_a m AND 0x04 \<noteq> 0 then ([], m\<lparr>ram := (ram m)(addr := val)\<rparr>) else ([], m))
      else if port_a m AND 0x08 \<noteq> 0 then ([Stderr_write_to_ROM addr], m)
      else ([], m\<lparr>ram := (ram m)(addr := val)\<rparr>))"

subsection \<open>The 82C55 parallel interface\<close>

definition ppi_recalc :: "'x env \<Rightarrow> 'x machine \<Rightarrow> event list \<times> 'x machine" where
  "ppi_recalc E m =
     (let new_cs = (ucast (port_c m) :: u32) AND 7 in
      if sdcard m \<and> new_cs \<noteq> old_cs m then
        (if old_cs m = 0 then
           ([Call_sd_spi_raise_cs], m\<lparr>ext := sd_spi_raise_cs E (ext m), old_cs := new_cs\<rparr>)
         else if new_cs = 0 then
           ([Call_sd_spi_lower_cs], m\<lparr>ext := sd_spi_lower_cs E (ext m), old_cs := new_cs\<rparr>)
         else ([], m\<lparr>old_cs := new_cs\<rparr>))
      else ([], m))"

text \<open>The chip-select value: the low three bits of port C, as \<^verbatim>\<open>ppi_recalc\<close> reads them.\<close>

definition chip_select :: "'x machine \<Rightarrow> u32" where
  "chip_select m = (ucast (port_c m) :: u32) AND 7"

definition ppi_read :: "'x machine \<Rightarrow> u8 \<Rightarrow> event list \<times> u8" where
  "ppi_read m addr =
     (if addr = 0 then ([], if port_ctl m AND 0x10 \<noteq> 0 then 0xFF else port_a m)
      else if addr = 1 then ([], if port_ctl m AND 0x02 \<noteq> 0 then 0xFF else port_b m)
      else if addr = 2 then
        (let r = (if port_ctl m AND 0x01 \<noteq> 0 then 0x0F else port_c m AND 0x0F) in
         ([], if port_ctl m AND 0x08 \<noteq> 0 then r OR 0xF0 else r OR (port_c m AND 0xF0)))
      else if addr = 3 then ([], port_ctl m)
      else ([Stderr_invalid_ppi], 0xFF))"

text \<open>
  The register write of \<^verbatim>\<open>ppi_write\<close>, before the call of \<^verbatim>\<open>ppi_recalc\<close> that ends
  it. In the bit set/reset branch the source shifts the int 1 by a count of at most 7
  and stores into a byte, which is the shift of the byte 1.
\<close>

definition ppi_store :: "'x machine \<Rightarrow> u8 \<Rightarrow> u8 \<Rightarrow> event list \<times> 'x machine" where
  "ppi_store m addr val =
     (if addr = 0 then ([], m\<lparr>port_a := val\<rparr>)
      else if addr = 1 then ([], m\<lparr>port_b := val\<rparr>)
      else if addr = 2 then ([], m\<lparr>port_c := val\<rparr>)
      else if addr = 3 then
        (if val AND 0x80 \<noteq> 0 then ([], m\<lparr>port_ctl := val\<rparr>)
         else
           (let bit0 = val AND 1;
                n = unat (drop_bit 1 val AND 0x07);
                c = port_c m AND NOT (push_bit n 1)
            in ([], m\<lparr>port_c := (if bit0 \<noteq> 0 then c OR push_bit n 1 else c)\<rparr>)))
      else ([Stderr_invalid_ppi], m))"

definition ppi_write :: "'x env \<Rightarrow> 'x machine \<Rightarrow> u8 \<Rightarrow> u8 \<Rightarrow> event list \<times> 'x machine" where
  "ppi_write E m addr val =
     (let (ev1, m1) = ppi_store m addr val;
          (ev2, m2) = ppi_recalc E m1
      in (ev1 @ ev2, m2))"

subsection \<open>Interrupt polling\<close>

definition recalc_interrupts :: "'x machine \<Rightarrow> 'x machine" where
  "recalc_interrupts m = m\<lparr>int_recalc := 1\<rparr>"

text \<open>
  The return from an external routine that takes \<^verbatim>\<open>io\<close>: the external state and the CPU
  context are what the routine left, and \<^verbatim>\<open>recalc_interrupts\<close> has run if the routine
  called it.
\<close>

definition io_return :: "'x machine \<Rightarrow> 'x io_result \<Rightarrow> 'x machine" where
  "io_return m r =
     (case r of (x, c, called) \<Rightarrow>
        (let m1 = m\<lparr>cpu_z180 := c, ext := x\<rparr> in
         if called then recalc_interrupts m1 else m1))"

definition poll_irq_event :: "'x env \<Rightarrow> 'x machine \<Rightarrow> event list \<times> 'x machine" where
  "poll_irq_event E m =
     ([Call_z180_interrupt], io_return m (z180_interrupt E (ext m) (cpu_z180 m)))"

definition reti_event :: "'x env \<Rightarrow> 'x machine \<Rightarrow> event list \<times> 'x machine" where
  "reti_event E m =
     (let ev0 = (if live_irq m \<noteq> 0 \<and> trace m AND TRACE_IRQ \<noteq> 0 then [Stderr_RETI] else []);
          (ev1, m1) = poll_irq_event E (m\<lparr>live_irq := 0\<rparr>)
      in (ev0 @ ev1, m1))"

subsection \<open>CPU memory accesses\<close>

text \<open>The CPU engine sets \<open>M1\<close> in its context before a read: non-zero for an opcode fetch.\<close>

definition set_M1 :: "'x machine \<Rightarrow> u8 \<Rightarrow> 'x machine" where
  "set_M1 m f = m\<lparr>cpu_z180 := (cpu_z180 m)\<lparr>M1 := f\<rparr>\<rparr>"

definition do_mem_read0 :: "'x env \<Rightarrow> 'x machine \<Rightarrow> u16 \<Rightarrow> bool \<Rightarrow> event list \<times> u8" where
  "do_mem_read0 E m addr quiet =
     (let pa = z180_mmu_translate E (ext m) addr;
          r = z180_phys_read m pa
      in (if \<not> quiet \<and> trace m AND TRACE_MEM \<noteq> 0 then [Stderr_mem_R addr pa r] else [], r))"

definition mem_write0 :: "'x env \<Rightarrow> 'x machine \<Rightarrow> u16 \<Rightarrow> u8 \<Rightarrow> event list \<times> 'x machine" where
  "mem_write0 E m addr val =
     (let pa = z180_mmu_translate E (ext m) addr;
          ev0 = (if trace m AND TRACE_MEM \<noteq> 0 then [Stderr_mem_W addr pa val] else []);
          (ev1, m1) = z180_phys_write m pa val
      in (ev0 @ ev1, m1))"

definition mem_read :: "'x env \<Rightarrow> 'x machine \<Rightarrow> u16 \<Rightarrow> event list \<times> u8 \<times> 'x machine" where
  "mem_read E m addr =
     (let (ev0, r) = do_mem_read0 E m addr False in
      if M1 (cpu_z180 m) \<noteq> 0 \<and> (r = 0xDD \<or> r = 0xFD \<or> r = 0xCB) then
        (ev0, r, m\<lparr>rstate := 2\<rparr>)
      else if M1 (cpu_z180 m) \<noteq> 0 \<and> r = 0xED \<and> rstate m = 0 then
        (ev0, r, m\<lparr>rstate := 1\<rparr>)
      else
        (let (ev1, m1) = (if r = 0x4D \<and> rstate m = 1 then reti_event E m else ([], m))
         in (ev0 @ ev1, r, m1\<lparr>rstate := 0\<rparr>)))"

definition mem_write :: "'x env \<Rightarrow> 'x machine \<Rightarrow> u16 \<Rightarrow> u8 \<Rightarrow> event list \<times> 'x machine" where
  "mem_write E m addr val = mem_write0 E m addr val"

subsection \<open>The floppy controller registers, the LEDs and the IDE window\<close>

definition fdc_write :: "'x env \<Rightarrow> 'x machine \<Rightarrow> u8 \<Rightarrow> u8 \<Rightarrow> event list \<times> 'x machine" where
  "fdc_write E m addr val =
     (if addr = 1 then
        ([Stderr_fdc_write addr val, Call_fdc_write_data val],
         m\<lparr>ext := fdc_write_data E (ext m) val\<rparr>)
      else if addr = 2 then
        ([Stderr_fdc_write addr val, Call_fdc_write_dor val],
         m\<lparr>ext := fdc_write_dor E (ext m) val\<rparr>)
      else if addr = 3 then
        ([Stderr_fdc_write addr val, Call_fdc_write_drr (val AND 3)],
         m\<lparr>ext := fdc_write_drr E (ext m) (val AND 3)\<rparr>)
      else if addr = 4 then
        ([Call_fdc_set_terminal_count 0, Call_fdc_set_terminal_count 1, Stderr_fdc_write addr val],
         m\<lparr>ext := fdc_set_terminal_count E (fdc_set_terminal_count E (ext m) 0) 1\<rparr>)
      else ([Stderr_fdc_write addr val], m))"

definition fdc_read :: "'x env \<Rightarrow> 'x machine \<Rightarrow> u8 \<Rightarrow> event list \<times> u8 \<times> 'x machine" where
  "fdc_read E m addr =
     (let (ev, val, m1) =
        (if addr = 0 then
           (let (v, x) = fdc_read_ctrl E (ext m)
            in ([Stderr_fdc_read addr, Call_fdc_read_ctrl], v, m\<lparr>ext := x\<rparr>))
         else if addr = 1 then
           (let (v, x) = fdc_read_data E (ext m)
            in ([Stderr_fdc_read addr, Call_fdc_read_data], v, m\<lparr>ext := x\<rparr>))
         else ([Stderr_fdc_read addr], 0x78, m))
      in (ev @ [Stderr_fdc_read_value val], val, m1))"

definition diag_write :: "'x machine \<Rightarrow> u8 \<Rightarrow> event list" where
  "diag_write m val = (if leds m = 0 then [] else [Stdout_leds val])"

definition my_ide_read :: "'x env \<Rightarrow> 'x machine \<Rightarrow> u16 \<Rightarrow> event list \<times> u8 \<times> 'x machine" where
  "my_ide_read E m addr =
     (let (r, x) = ide_read8 E (ext m) addr
      in (Call_ide_read8 addr # (if trace m AND TRACE_IDE \<noteq> 0 then [Stderr_ide_read addr r] else []),
          r, m\<lparr>ext := x\<rparr>))"

definition my_ide_write :: "'x env \<Rightarrow> 'x machine \<Rightarrow> u16 \<Rightarrow> u8 \<Rightarrow> event list \<times> 'x machine" where
  "my_ide_write E m addr val =
     ((if trace m AND TRACE_IDE \<noteq> 0 then [Stderr_ide_write addr val] else []) @ [Call_ide_write8 addr val],
      m\<lparr>ext := ide_write8 E (ext m) addr val\<rparr>)"

subsection \<open>The port decode\<close>

definition io_read :: "'x env \<Rightarrow> 'x machine \<Rightarrow> u16 \<Rightarrow> event list \<times> u8 \<times> 'x machine" where
  "io_read E m addr0 =
     (let ev0 = (if trace m AND TRACE_IO \<noteq> 0 then [Stderr_io_read addr0] else []) in
      if z180_iospace E (ext m) addr0 then
        (let (r, res) = z180_read E (ext m) (cpu_z180 m) addr0
         in (ev0 @ [Call_z180_read addr0], r, io_return m res))
      else
        (let addr = addr0 AND 0xFF in
         if (0x10 \<le> addr \<and> addr \<le> 0x17) \<and> ide m = 1 then
           (let (ev, r, m1) = my_ide_read E m (addr AND 7) in (ev0 @ ev, r, m1))
         else if 0x70 \<le> addr \<and> addr < 0x77 then
           (let (ev, r, m1) = fdc_read E m (ucast (addr AND 7)) in (ev0 @ ev, r, m1))
         else if 0x78 \<le> addr \<and> addr \<le> 0x7F then
           (let (ev, r) = ppi_read m (ucast (addr AND 3)) in (ev0 @ ev, r, m))
         else
           (ev0 @ (if trace m AND TRACE_UNK \<noteq> 0 then [Stderr_unknown_read addr] else []), 0xFF, m)))"

definition io_write :: "'x env \<Rightarrow> 'x machine \<Rightarrow> u16 \<Rightarrow> u8 \<Rightarrow> event list \<times> 'x machine" where
  "io_write E m addr0 val =
     (let ev0 = (if trace m AND TRACE_IO \<noteq> 0 then [Stderr_io_write addr0 val] else []) in
      if z180_iospace E (ext m) addr0 then
        (ev0 @ [Call_z180_write addr0 val],
         io_return m (z180_write E (ext m) (cpu_z180 m) addr0 val))
      else
        (let addr = addr0 AND 0xFF;
             (ev, m1) =
               (if (0x10 \<le> addr \<and> addr \<le> 0x17) \<and> ide m = 1 then my_ide_write E m (addr AND 7) val
                else if 0x70 \<le> addr \<and> addr < 0x78 then fdc_write E m (ucast (addr AND 7)) val
                else if 0x78 \<le> addr \<and> addr \<le> 0x7F then ppi_write E m (ucast (addr AND 3)) val
                else if addr = 0x0D then (diag_write m val, m)
                else if addr = 0xFD then
                  (let t = (trace m AND 0xFF00) OR ucast val in ([Stdout_trace_set t], m\<lparr>trace := t\<rparr>))
                else if addr = 0xFE then
                  (let t = (trace m AND 0xFF) OR push_bit 8 (ucast val) in ([Stdout_trace_set t], m\<lparr>trace := t\<rparr>))
                else if trace m AND TRACE_UNK \<noteq> 0 then ([Stderr_unknown_write addr val], m)
                else ([], m))
         in (ev0 @ ev, m1)))"

subsection \<open>The scheduler loop of main\<close>

text \<open>
  The body of the innermost \<^verbatim>\<open>while (states < tstate_steps)\<close>, up to the cycles it
  adds to \<open>states\<close>: the DMA engine runs; the CPU runs only if the DMA engine used no
  cycles.
\<close>

definition cycle_step :: "'x env \<Rightarrow> 'x machine \<Rightarrow> sched_call list \<times> u32 \<times> 'x machine" where
  "cycle_step E m =
     (let (used, m1) = z180_dma E m in
      if used = 0 then
        (let (used2, m2) = Z180Execute E m1
         in ([Call_z180_dma used, Call_Z180Execute used2], used2, m2))
      else ([Call_z180_dma used], used, m1))"

text \<open>
  The innermost loop ends only when the engines report enough cycles, so it takes
  fuel: a bound on its iterations. The calls made so far are returned in any case; the
  state is \<open>None\<close> when the fuel ran out with the loop still running. \<open>states\<close> is a C
  int and \<open>tstate_steps\<close> is promoted to int, so the comparison is signed; \<open>used\<close> is
  unsigned and the sum wraps.
\<close>

fun cycle_loop ::
  "'x env \<Rightarrow> nat \<Rightarrow> u32 \<Rightarrow> 'x machine \<Rightarrow> sched_call list \<times> (u32 \<times> 'x machine) option" where
  "cycle_loop E 0 states m =
     (if states <s ucast tstate_steps then ([], None) else ([], Some (states, m)))"
| "cycle_loop E (Suc k) states m =
     (if states <s ucast tstate_steps then
        (let (tr, used, m1) = cycle_step E m;
             (tr', r) = cycle_loop E k (states + used) m1
         in (tr @ tr', r))
      else ([], Some (states, m)))"

text \<open>A counted \<^verbatim>\<open>for\<close> loop: \<open>n\<close> runs of a body that may give out.\<close>

fun repeat ::
  "nat \<Rightarrow> ('s \<Rightarrow> sched_call list \<times> 's option) \<Rightarrow> 's \<Rightarrow> sched_call list \<times> 's option" where
  "repeat 0 body s = ([], Some s)"
| "repeat (Suc n) body s =
     (case body s of
        (tr, None) \<Rightarrow> (tr, None)
      | (tr, Some s1) \<Rightarrow> (let (tr', r) = repeat n body s1 in (tr @ tr', r)))"

text \<open>The body of \<^verbatim>\<open>for (j = 0; j < 10; j++)\<close>: one minor tick.\<close>

definition minor_tick ::
  "'x env \<Rightarrow> nat \<Rightarrow> u32 \<times> 'x machine \<Rightarrow> sched_call list \<times> (u32 \<times> 'x machine) option" where
  "minor_tick E fuel s =
     (case cycle_loop E fuel (fst s) (snd s) of
        (tr, None) \<Rightarrow> (tr, None)
      | (tr, Some (states, m1)) \<Rightarrow>
          (tr @ [Call_z180_event states],
           Some (states - ucast tstate_steps, z180_event E states m1)))"

text \<open>The body of \<^verbatim>\<open>for (i = 0; i < 50; i++)\<close>: ten minor ticks, then the floppy tick.\<close>

definition fdc_group ::
  "'x env \<Rightarrow> nat \<Rightarrow> u32 \<times> 'x machine \<Rightarrow> sched_call list \<times> (u32 \<times> 'x machine) option" where
  "fdc_group E fuel s =
     (case repeat 10 (minor_tick E fuel) s of
        (tr, None) \<Rightarrow> (tr, None)
      | (tr, Some (states, m1)) \<Rightarrow> (tr @ [Call_fdc_tick], Some (states, fdc_tick E m1)))"

text \<open>The \<^verbatim>\<open>if (int_recalc)\<close> block that ends a pass of the loop.\<close>

definition service_int_recalc :: "'x env \<Rightarrow> 'x machine \<Rightarrow> sched_call list \<times> 'x machine" where
  "service_int_recalc E m =
     (if int_recalc m \<noteq> 0 then
        (let (tr, m1) =
               (if live_irq m = 0 then ([Call_poll_irq_event], snd (poll_irq_event E m))
                else ([], m))
         in (tr, if IFF1 (cpu_z180 m1) OR IFF2 (cpu_z180 m1) = 0 then m1\<lparr>int_recalc := 0\<rparr> else m1))
      else ([], m))"

text \<open>The two nested \<^verbatim>\<open>for\<close> statements: 50 groups of 10 minor ticks, from \<open>states = 0\<close>.\<close>

definition work_20ms ::
  "'x env \<Rightarrow> nat \<Rightarrow> 'x machine \<Rightarrow> sched_call list \<times> (u32 \<times> 'x machine) option" where
  "work_20ms E fuel m = repeat 50 (fdc_group E fuel) (0, m)"

text \<open>One pass of \<^verbatim>\<open>while (!emulator_done)\<close>.\<close>

definition main_loop_pass ::
  "'x env \<Rightarrow> nat \<Rightarrow> 'x machine \<Rightarrow> sched_call list \<times> 'x machine option" where
  "main_loop_pass E fuel m =
     (case work_20ms E fuel m of
        (tr, None) \<Rightarrow> (tr, None)
      | (tr, Some (states, m1)) \<Rightarrow>
          (let tr1 = (if fast m1 = 0 then [Call_nanosleep] else []);
               (tr2, m2) = service_int_recalc E m1
           in (tr @ tr1 @ tr2, Some m2)))"

subsection \<open>Reading the scheduler's calls\<close>

fun is_Execute :: "sched_call \<Rightarrow> bool" where
  "is_Execute (Call_Z180Execute used) = True"
| "is_Execute c = False"

fun is_z180_event :: "sched_call \<Rightarrow> bool" where
  "is_z180_event (Call_z180_event states) = True"
| "is_z180_event c = False"

text \<open>
  \<open>interleaved prev tr\<close>: in the calls \<open>tr\<close>, made after the call \<open>prev\<close>, a call is
  \<^verbatim>\<open>Z180Execute\<close> exactly when the call right before it is a \<^verbatim>\<open>z180_dma\<close> that
  reported zero cycles, and the calls do not end on such a \<^verbatim>\<open>z180_dma\<close>.
\<close>

fun interleaved :: "sched_call option \<Rightarrow> sched_call list \<Rightarrow> bool" where
  "interleaved prev [] = (prev \<noteq> Some (Call_z180_dma 0))"
| "interleaved prev (c # tr) =
     ((is_Execute c = (prev = Some (Call_z180_dma 0))) \<and> interleaved (Some c) tr)"

subsection \<open>A concrete board for evaluation\<close>

text \<open>
  External routines that do nothing: the MMU maps every address to itself, the I/O
  controller claims no port, the DMA engine is idle and every instruction takes one
  whole quantum of 737 cycles.
\<close>

definition idle_env :: "'x env" where
  "idle_env =
     \<lparr> z180_mmu_translate = (\<lambda>x a. ucast a),
       z180_iospace = (\<lambda>x a. False),
       z180_read = (\<lambda>x c a. (0xFF, x, c, False)),
       z180_write = (\<lambda>x c a v. (x, c, False)),
       z180_interrupt = (\<lambda>x c. (x, c, False)),
       ide_read8 = (\<lambda>x a. (0xFF, x)),
       ide_write8 = (\<lambda>x a v. x),
       fdc_read_ctrl = (\<lambda>x. (0x80, x)),
       fdc_read_data = (\<lambda>x. (0, x)),
       fdc_write_data = (\<lambda>x v. x),
       fdc_write_dor = (\<lambda>x v. x),
       fdc_write_drr = (\<lambda>x v. x),
       fdc_set_terminal_count = (\<lambda>x v. x),
       sd_spi_raise_cs = (\<lambda>x. x),
       sd_spi_lower_cs = (\<lambda>x. x),
       z180_dma = (\<lambda>m. (0, m)),
       Z180Execute = (\<lambda>m. (737, m)),
       z180_event = (\<lambda>s m. m),
       fdc_tick = (\<lambda>m. m) \<rparr>"

text \<open>A ROM image whose byte at an offset is the number of the 64 KiB page it lies in.\<close>

definition page_rom :: "u32 \<Rightarrow> u8" where
  "page_rom a = ucast (drop_bit 16 a)"

text \<open>The start state with that ROM, the RAM filled with 0x55 and an SD card attached.\<close>

definition board0 :: "unit machine" where
  "board0 = startup (\<lambda>a. 0x55) page_rom 1 0 0 True 0 \<lparr>M1 = 1, IFF1 = 1, IFF2 = 0\<rparr> ()"

text \<open>
  A board for the RETI detector: the ROM is switched off (port A = 0xF7) and the RAM
  holds ED at 0x100, DD at 0x101, ED at 0x102 and 4D everywhere else.
\<close>

definition reti_board :: "unit machine" where
  "reti_board =
     board0\<lparr>ram := (\<lambda>a. if a = 0x100 \<or> a = 0x102 then 0xED else if a = 0x101 then 0xDD else 0x4D),
            port_a := 0xF7\<rparr>"

text \<open>
  A DMA engine that has \<open>ext\<close> bursts of 300 cycles left, and a CPU whose instructions
  take 500 cycles; a board with two bursts pending.
\<close>

definition dma_env :: "nat env" where
  "dma_env =
     idle_env\<lparr>z180_dma := (\<lambda>m. if ext m = 0 then (0, m) else (300, m\<lparr>ext := ext m - 1\<rparr>)),
              Z180Execute := (\<lambda>m. (500, m))\<rparr>"

definition dma_board :: "nat machine" where
  "dma_board = startup (\<lambda>a. 0) (\<lambda>a. 0) 1 0 0 False 0 \<lparr>M1 = 0, IFF1 = 0, IFF2 = 0\<rparr> 2"

text \<open>A board that owes a re-poll, with an interrupt-enable flag set.\<close>

definition recalc_board :: "unit machine" where
  "recalc_board = board0\<lparr>int_recalc := 1\<rparr>"

section \<open>Properties\<close>

subsection \<open>Bits of a byte\<close>

lemma and_1_neq_0_iff: "((v :: u8) AND 1 \<noteq> 0) = bit v 0"
  by (simp add: and_one_eq bit_0 odd_iff_mod_2_eq_one)

lemma sel_lt_8: "unat ((w :: u8) AND 7) < 8"
proof -
  have "w AND 7 \<le> 7" by (rule word_and_le1)
  then show ?thesis by (simp add: word_le_nat_alt)
qed

lemma bit_one_shifted: "n < 8 \<Longrightarrow> bit (push_bit n (1 :: u8)) k = (k = n)"
  by (auto simp add: bit_simps)

lemma bit_set:
  "n < 8 \<Longrightarrow>
   bit (((c :: u8) AND NOT (push_bit n 1)) OR push_bit n 1) k = (if k = n then True else bit c k)"
  using bit_one_shifted [of n k]
  by (auto simp add: bit_or_iff bit_and_iff bit_not_iff simp del: push_bit_of_1
      dest: bit_imp_le_length)

lemma bit_reset:
  "n < 8 \<Longrightarrow> bit ((c :: u8) AND NOT (push_bit n 1)) k = (if k = n then False else bit c k)"
  using bit_one_shifted [of n k]
  by (auto simp add: bit_or_iff bit_and_iff bit_not_iff simp del: push_bit_of_1
      dest: bit_imp_le_length)

lemma masked_bit19: "((addr :: u32) AND 0xFFFFF) AND 0x80000 = addr AND 0x80000"
  by (simp add: word_bw_assocs)

lemma ram_index_in_range: "unat ((addr :: u32) AND 0xFFFFF) < 1024 * 1024"
proof -
  have "addr AND 0xFFFFF \<le> 0xFFFFF" by (rule word_and_le1)
  then show ?thesis by (simp add: word_le_nat_alt)
qed

lemma rom_index_in_range: "unat ((addr :: u32) AND 0x3FFFF) < 512 * 1024"
proof -
  have "addr AND 0x3FFFF \<le> 0x3FFFF" by (rule word_and_le1)
  then show ?thesis by (simp add: word_le_nat_alt)
qed

subsection \<open>The PPI control address\<close>

lemma ppi_recalc_ports:
  "port_a (snd (ppi_recalc E m)) = port_a m \<and> port_b (snd (ppi_recalc E m)) = port_b m \<and>
   port_c (snd (ppi_recalc E m)) = port_c m \<and> port_ctl (snd (ppi_recalc E m)) = port_ctl m"
  by (simp add: ppi_recalc_def Let_def)

lemma ppi_write_alt:
  "ppi_write E m addr val =
     (fst (ppi_store m addr val) @ fst (ppi_recalc E (snd (ppi_store m addr val))),
      snd (ppi_recalc E (snd (ppi_store m addr val))))"
  by (simp add: ppi_write_def split: prod.split)

lemma ppi_write_ports:
  "port_a (snd (ppi_write E m addr val)) = port_a (snd (ppi_store m addr val)) \<and>
   port_b (snd (ppi_write E m addr val)) = port_b (snd (ppi_store m addr val)) \<and>
   port_c (snd (ppi_write E m addr val)) = port_c (snd (ppi_store m addr val)) \<and>
   port_ctl (snd (ppi_write E m addr val)) = port_ctl (snd (ppi_store m addr val))"
  by (simp add: ppi_write_alt ppi_recalc_ports)

lemma ppi_store_3_set:
  "val AND 0x80 \<noteq> 0 \<Longrightarrow> ppi_store m 3 val = ([], m\<lparr>port_ctl := val\<rparr>)"
  by (simp add: ppi_store_def)

lemma ppi_store_3_bit:
  assumes "val AND 0x80 = 0"
  shows "port_a (snd (ppi_store m 3 val)) = port_a m"
    and "port_b (snd (ppi_store m 3 val)) = port_b m"
    and "port_ctl (snd (ppi_store m 3 val)) = port_ctl m"
    and "bit (port_c (snd (ppi_store m 3 val))) k =
           (if k = unat (drop_bit 1 val AND 0x07) then bit val 0 else bit (port_c m) k)"
proof -
  let ?n = "unat (drop_bit 1 val AND 0x07)"
  have n: "?n < 8" by (rule sel_lt_8)
  show "port_a (snd (ppi_store m 3 val)) = port_a m"
    using assms by (simp add: ppi_store_def Let_def)
  show "port_b (snd (ppi_store m 3 val)) = port_b m"
    using assms by (simp add: ppi_store_def Let_def)
  show "port_ctl (snd (ppi_store m 3 val)) = port_ctl m"
    using assms by (simp add: ppi_store_def Let_def)
  have c: "port_c (snd (ppi_store m 3 val)) =
      (if bit val 0 then (port_c m AND NOT (push_bit ?n 1)) OR push_bit ?n 1
       else port_c m AND NOT (push_bit ?n 1))"
    using assms and_1_neq_0_iff [of val]
    by (simp add: ppi_store_def Let_def del: push_bit_of_1)
  show "bit (port_c (snd (ppi_store m 3 val))) k =
           (if k = ?n then bit val 0 else bit (port_c m) k)"
  proof (cases "bit val 0")
    case True
    then show ?thesis
      using c bit_set [OF n, of "port_c m" k] by (simp del: push_bit_of_1)
  next
    case False
    then show ?thesis
      using c bit_reset [OF n, of "port_c m" k] by (simp del: push_bit_of_1)
  qed
qed

text \<open>
  C6. A write of \<open>val\<close> to PPI sub-address 3: with bit 7 of \<open>val\<close> set the control
  register becomes \<open>val\<close> and ports A, B and C keep their values; with bit 7 clear, bit
  number \<open>(val >> 1) & 7\<close> of port C becomes bit 0 of \<open>val\<close>, every other bit of port C
  keeps its value, and so do ports A and B and the control register.
\<close>

theorem ppi_control_write:
  "(val AND 0x80 \<noteq> 0 \<longrightarrow>
      port_ctl (snd (ppi_write E m 3 val)) = val \<and>
      port_a (snd (ppi_write E m 3 val)) = port_a m \<and>
      port_b (snd (ppi_write E m 3 val)) = port_b m \<and>
      port_c (snd (ppi_write E m 3 val)) = port_c m) \<and>
   (val AND 0x80 = 0 \<longrightarrow>
      (\<forall>k. bit (port_c (snd (ppi_write E m 3 val))) k =
             (if k = unat (drop_bit 1 val AND 0x07) then bit val 0 else bit (port_c m) k)) \<and>
      port_a (snd (ppi_write E m 3 val)) = port_a m \<and>
      port_b (snd (ppi_write E m 3 val)) = port_b m \<and>
      port_ctl (snd (ppi_write E m 3 val)) = port_ctl m)"
proof (cases "val AND 0x80 = 0")
  case True
  then show ?thesis
    by (simp add: ppi_write_ports ppi_store_3_bit)
next
  case False
  then show ?thesis
    by (simp add: ppi_write_ports ppi_store_3_set)
qed

text \<open>
  The example of the specification: 0x09 written to the control address sets bit 4 of
  port C (here from 0x03 to 0x13); 0x9B, with bit 7 set, is stored as the control
  register.
\<close>

theorem ppi_control_write_witness:
  "(0x09 :: u8) AND 0x80 = 0 \<and> unat (drop_bit 1 (0x09 :: u8) AND 0x07) = 4 \<and> bit (0x09 :: u8) 0 \<and>
   port_c (snd (ppi_write idle_env (board0\<lparr>port_c := 0x03\<rparr>) 3 0x09)) = 0x13 \<and>
   bit (port_c (snd (ppi_write idle_env (board0\<lparr>port_c := 0x03\<rparr>) 3 0x09))) 4 \<and>
   (0x9B :: u8) AND 0x80 \<noteq> 0 \<and>
   port_ctl (snd (ppi_write idle_env board0 3 0x9B)) = 0x9B"
  using ppi_control_write [of "0x09" idle_env "board0\<lparr>port_c := 0x03\<rparr>"]
    ppi_control_write [of "0x9B" idle_env board0]
  by (simp add: ppi_write_def ppi_store_def ppi_recalc_def board0_def startup_def idle_env_def Let_def)

subsection \<open>The bank decode\<close>

text \<open>What the two accessors do in each of the four banks.\<close>

lemma base_half_rom:
  assumes "addr AND 0x80000 = 0" and "port_a m AND 0x08 \<noteq> 0"
  shows "z180_phys_read m addr = rom m (addr AND 0x3FFFF)"
    and "z180_phys_write m addr val = ([Stderr_write_to_ROM (addr AND 0xFFFFF)], m)"
  using assms masked_bit19 [of addr] by (simp_all add: z180_phys_read_def z180_phys_write_def Let_def)

lemma base_half_ram:
  assumes "addr AND 0x80000 = 0" and "port_a m AND 0x08 = 0"
  shows "z180_phys_read m addr = ram m (addr AND 0xFFFFF)"
    and "z180_phys_write m addr val = ([], m\<lparr>ram := (ram m)(addr AND 0xFFFFF := val)\<rparr>)"
  using assms masked_bit19 [of addr] by (simp_all add: z180_phys_read_def z180_phys_write_def Let_def)

lemma extended_half_ram:
  assumes "addr AND 0x80000 \<noteq> 0" and "port_a m AND 0x04 \<noteq> 0"
  shows "z180_phys_read m addr = ram m (addr AND 0xFFFFF)"
    and "z180_phys_write m addr val = ([], m\<lparr>ram := (ram m)(addr AND 0xFFFFF := val)\<rparr>)"
  using assms masked_bit19 [of addr] by (simp_all add: z180_phys_read_def z180_phys_write_def Let_def)

lemma extended_half_disabled:
  assumes "addr AND 0x80000 \<noteq> 0" and "port_a m AND 0x04 = 0"
  shows "z180_phys_read m addr = 0xFF"
    and "z180_phys_write m addr val = ([], m)"
  using assms masked_bit19 [of addr] by (simp_all add: z180_phys_read_def z180_phys_write_def Let_def)

text \<open>
  C2. For an address with bit 19 set, while bit 2 of port A (extended-memory enable) is
  clear: a read returns 0xFF, a write changes nothing and prints nothing, and a read of
  the address after the write returns what it returned before.
\<close>

theorem extended_memory_disabled:
  "addr AND 0x80000 \<noteq> 0 \<and> port_a m AND 0x04 = 0 \<longrightarrow>
     z180_phys_read m addr = 0xFF \<and>
     z180_phys_write m addr val = ([], m) \<and>
     z180_phys_read (snd (z180_phys_write m addr val)) addr = z180_phys_read m addr"
  by (simp add: extended_half_disabled)

text \<open>Port A = 0xFB has bit 2 clear; 0x80010 lies in the extended half.\<close>

theorem extended_memory_disabled_witness:
  "(0x80010 :: u32) AND 0x80000 \<noteq> 0 \<and> port_a (board0\<lparr>port_a := 0xFB\<rparr>) AND 0x04 = 0 \<and>
   z180_phys_read (board0\<lparr>port_a := 0xFB\<rparr>) 0x80010 = 0xFF \<and>
   z180_phys_write (board0\<lparr>port_a := 0xFB\<rparr>) 0x80010 0x12 = ([], board0\<lparr>port_a := 0xFB\<rparr>) \<and>
   z180_phys_read (snd (z180_phys_write (board0\<lparr>port_a := 0xFB\<rparr>) 0x80010 0x12)) 0x80010 = 0xFF"
  using extended_memory_disabled [of "0x80010" "board0\<lparr>port_a := 0xFB\<rparr>" "0x12"]
  by (simp add: board0_def startup_def)

text \<open>
  C1. With the ROM enabled, a read in the base half returns the ROM byte at the offset
  \<open>addr & 0x3FFFF\<close>, 18 bits (lemma \<open>base_half_rom\<close>), not at the 19-bit offset of
  the address in the 512 KiB ROM: physical address 0x40000 reads ROM offset 0. On the
  board whose ROM holds the page number of each offset, the byte at offset 0x40000 is 4
  and the read returns 0.
\<close>

theorem rom_window_is_256K:
  "port_a board0 AND 0x08 \<noteq> 0 \<and> (0x40000 :: u32) AND 0x80000 = 0 \<and>
   (0x40000 :: u32) AND 0x7FFFF = 0x40000 \<and>
   rom board0 0x40000 = 0x04 \<and> rom board0 0 = 0x00 \<and>
   z180_phys_read board0 0x40000 = 0x00"
  by (simp add: z180_phys_read_def board0_def startup_def page_rom_def)

text \<open>
  C9. In the start state ports A, B and C hold 0xFF and the control register 0x9B, so
  bits 3 (ROM enable) and 2 (extended-memory enable) of port A are set: a read in the
  base half returns a ROM byte and a write there is dropped with the ROM diagnostic; a
  read in the extended half returns the RAM byte at the masked address and a write
  stores there.
\<close>

theorem startup_banks:
  "port_a (startup ram0 rom0 f l t sd i c x) = 0xFF \<and>
   port_b (startup ram0 rom0 f l t sd i c x) = 0xFF \<and>
   port_c (startup ram0 rom0 f l t sd i c x) = 0xFF \<and>
   port_ctl (startup ram0 rom0 f l t sd i c x) = 0x9B \<and>
   bit (port_a (startup ram0 rom0 f l t sd i c x)) 3 \<and>
   bit (port_a (startup ram0 rom0 f l t sd i c x)) 2 \<and>
   (addr AND 0x80000 = 0 \<longrightarrow>
      z180_phys_read (startup ram0 rom0 f l t sd i c x) addr = rom0 (addr AND 0x3FFFF) \<and>
      z180_phys_write (startup ram0 rom0 f l t sd i c x) addr val =
        ([Stderr_write_to_ROM (addr AND 0xFFFFF)], startup ram0 rom0 f l t sd i c x)) \<and>
   (addr AND 0x80000 \<noteq> 0 \<longrightarrow>
      z180_phys_read (startup ram0 rom0 f l t sd i c x) addr = ram0 (addr AND 0xFFFFF) \<and>
      z180_phys_write (startup ram0 rom0 f l t sd i c x) addr val =
        ([], (startup ram0 rom0 f l t sd i c x)\<lparr>ram := ram0(addr AND 0xFFFFF := val)\<rparr>))"
proof -
  let ?m = "startup ram0 rom0 f l t sd i c x"
  have p: "port_a ?m = 0xFF" "port_b ?m = 0xFF" "port_c ?m = 0xFF" "port_ctl ?m = 0x9B"
    "ram ?m = ram0" "rom ?m = rom0"
    by (simp_all add: startup_def)
  have e: "port_a ?m AND 0x08 \<noteq> 0" "port_a ?m AND 0x04 \<noteq> 0"
    by (simp_all add: p)
  have b: "bit (port_a ?m) 3" "bit (port_a ?m) 2"
    by (simp_all add: p)
  show ?thesis
    using base_half_rom [where m = ?m and addr = addr, OF _ e(1)]
      extended_half_ram [where m = ?m and addr = addr, OF _ e(2)]
    by (simp add: p b)
qed

text \<open>On \<open>board0\<close>: 0x12345 reads page 1 of the ROM, 0x92345 reads and writes the RAM.\<close>

theorem startup_banks_witness:
  "(0x12345 :: u32) AND 0x80000 = 0 \<and> z180_phys_read board0 0x12345 = 0x01 \<and>
   (0x92345 :: u32) AND 0x80000 \<noteq> 0 \<and> z180_phys_read board0 0x92345 = 0x55 \<and>
   ram (snd (z180_phys_write board0 0x92345 0x66)) 0x92345 = 0x66"
  using startup_banks [of "\<lambda>a. 0x55" page_rom 1 0 0 True 0 "\<lparr>M1 = 1, IFF1 = 1, IFF2 = 0\<rparr>" "()" "0x12345" "0x66"]
    startup_banks [of "\<lambda>a. 0x55" page_rom 1 0 0 True 0 "\<lparr>M1 = 1, IFF1 = 1, IFF2 = 0\<rparr>" "()" "0x92345" "0x66"]
  by (simp add: board0_def page_rom_def)

subsection \<open>Chip-select events\<close>

lemma ppi_store_frame:
  "sdcard (snd (ppi_store m addr val)) = sdcard m \<and> old_cs (snd (ppi_store m addr val)) = old_cs m"
  by (simp add: ppi_store_def Let_def)

lemma ppi_store_no_cs_event:
  "count_list (fst (ppi_store m addr val)) Call_sd_spi_lower_cs = 0 \<and>
   count_list (fst (ppi_store m addr val)) Call_sd_spi_raise_cs = 0"
  by (simp add: ppi_store_def Let_def)

lemma ppi_recalc_events:
  assumes "sdcard m"
  shows "fst (ppi_recalc E m) =
           (if chip_select m = old_cs m then []
            else if old_cs m = 0 then [Call_sd_spi_raise_cs]
            else if chip_select m = 0 then [Call_sd_spi_lower_cs]
            else [])"
    and "old_cs (snd (ppi_recalc E m)) = chip_select m"
    and "sdcard (snd (ppi_recalc E m))"
    and "chip_select (snd (ppi_recalc E m)) = chip_select m"
  using assms by (simp_all add: ppi_recalc_def chip_select_def Let_def)

lemma count_list_append: "count_list (xs @ ys) a = count_list xs a + count_list ys a"
  by (induction xs) simp_all

text \<open>
  C7. With an SD card attached and the cached select equal to the low three bits of
  port C (true in the start state, lemma \<open>startup_chip_select\<close>, kept by every PPI
  write, the last line of the theorem, and by the other accesses, lemmas
  \<open>io_write_cache\<close> to \<open>mem_read_cache\<close>), a PPI write to any sub-address makes exactly one
  call of \<^verbatim>\<open>sd_spi_lower_cs\<close> if the select goes from non-zero to zero and none
  otherwise, exactly one call of \<^verbatim>\<open>sd_spi_raise_cs\<close> if it goes from zero to non-zero
  and none otherwise, and leaves the cache equal to the new select.
\<close>

theorem chip_select_events:
  "sdcard m \<and> old_cs m = chip_select m \<longrightarrow>
     count_list (fst (ppi_write E m addr val)) Call_sd_spi_lower_cs =
       (if chip_select m \<noteq> 0 \<and> chip_select (snd (ppi_write E m addr val)) = 0 then 1 else 0) \<and>
     count_list (fst (ppi_write E m addr val)) Call_sd_spi_raise_cs =
       (if chip_select m = 0 \<and> chip_select (snd (ppi_write E m addr val)) \<noteq> 0 then 1 else 0) \<and>
     old_cs (snd (ppi_write E m addr val)) = chip_select (snd (ppi_write E m addr val)) \<and>
     sdcard (snd (ppi_write E m addr val))"
proof
  assume a: "sdcard m \<and> old_cs m = chip_select m"
  let ?m1 = "snd (ppi_store m addr val)"
  have sd: "sdcard ?m1" and old: "old_cs ?m1 = chip_select m"
    using a by (simp_all add: ppi_store_frame)
  note r = ppi_recalc_events [OF sd, of E]
  show "count_list (fst (ppi_write E m addr val)) Call_sd_spi_lower_cs =
       (if chip_select m \<noteq> 0 \<and> chip_select (snd (ppi_write E m addr val)) = 0 then 1 else 0) \<and>
     count_list (fst (ppi_write E m addr val)) Call_sd_spi_raise_cs =
       (if chip_select m = 0 \<and> chip_select (snd (ppi_write E m addr val)) \<noteq> 0 then 1 else 0) \<and>
     old_cs (snd (ppi_write E m addr val)) = chip_select (snd (ppi_write E m addr val)) \<and>
     sdcard (snd (ppi_write E m addr val))"
    by (simp add: ppi_write_alt count_list_append ppi_store_no_cs_event r old)
qed

lemma startup_chip_select: "old_cs (startup r0 r1 f l t sd i c x) = chip_select (startup r0 r1 f l t sd i c x)"
  by (simp add: startup_def chip_select_def)

text \<open>The three writes of the specification to port C: select 3 to 0, 0 to 5, 5 to 3.\<close>

theorem chip_select_events_witness:
  "sdcard (board0\<lparr>port_c := 0xF3, old_cs := 3\<rparr>) \<and>
   old_cs (board0\<lparr>port_c := 0xF3, old_cs := 3\<rparr>) = chip_select (board0\<lparr>port_c := 0xF3, old_cs := 3\<rparr>) \<and>
   chip_select (board0\<lparr>port_c := 0xF3, old_cs := 3\<rparr>) = 3 \<and>
   ppi_write idle_env (board0\<lparr>port_c := 0xF3, old_cs := 3\<rparr>) 2 0xF0 =
     ([Call_sd_spi_lower_cs], board0\<lparr>port_c := 0xF0, old_cs := 0\<rparr>) \<and>
   ppi_write idle_env (board0\<lparr>port_c := 0xF0, old_cs := 0\<rparr>) 2 0xF5 =
     ([Call_sd_spi_raise_cs], board0\<lparr>port_c := 0xF5, old_cs := 5\<rparr>) \<and>
   ppi_write idle_env (board0\<lparr>port_c := 0xF5, old_cs := 5\<rparr>) 2 0xF3 =
     ([], board0\<lparr>port_c := 0xF3, old_cs := 3\<rparr>)"
  using chip_select_events [of "board0\<lparr>port_c := 0xF3, old_cs := 3\<rparr>" idle_env 2 "0xF0"]
    chip_select_events [of "board0\<lparr>port_c := 0xF0, old_cs := 0\<rparr>" idle_env 2 "0xF5"]
    chip_select_events [of "board0\<lparr>port_c := 0xF5, old_cs := 5\<rparr>" idle_env 2 "0xF3"]
  by (simp add: ppi_write_def ppi_store_def ppi_recalc_def chip_select_def board0_def startup_def idle_env_def Let_def)

subsection \<open>The RETI detector\<close>

lemma do_mem_read0_no_poll:
  "count_list (fst (do_mem_read0 E m a q)) Call_z180_interrupt = 0"
  by (simp add: do_mem_read0_def Let_def)

lemma do_mem_read0_cpu:
  "do_mem_read0 E (m\<lparr>cpu_z180 := c\<rparr>) a q = do_mem_read0 E m a q"
  by (simp add: do_mem_read0_def z180_phys_read_def Let_def)

lemma do_mem_read0_rstate:
  "do_mem_read0 E (m\<lparr>rstate := s\<rparr>) a q = do_mem_read0 E m a q"
  by (simp add: do_mem_read0_def z180_phys_read_def Let_def)

lemma io_return_frame:
  "live_irq (io_return m r) = live_irq m \<and> rstate (io_return m r) = rstate m"
  by (cases r) (simp add: io_return_def recalc_interrupts_def Let_def)

lemma reti_event_fires:
  "count_list (fst (reti_event E m)) Call_z180_interrupt = 1 \<and>
   live_irq (snd (reti_event E m)) = 0 \<and>
   rstate (snd (reti_event E m)) = rstate m"
  by (simp add: reti_event_def poll_irq_event_def io_return_frame Let_def)

lemma mem_read_alt:
  "mem_read E m addr =
     (let ev0 = fst (do_mem_read0 E m addr False); r = snd (do_mem_read0 E m addr False) in
      if M1 (cpu_z180 m) \<noteq> 0 \<and> (r = 0xDD \<or> r = 0xFD \<or> r = 0xCB) then (ev0, r, m\<lparr>rstate := 2\<rparr>)
      else if M1 (cpu_z180 m) \<noteq> 0 \<and> r = 0xED \<and> rstate m = 0 then (ev0, r, m\<lparr>rstate := 1\<rparr>)
      else if r = 0x4D \<and> rstate m = 1 then
        (ev0 @ fst (reti_event E m), r, (snd (reti_event E m))\<lparr>rstate := 0\<rparr>)
      else (ev0, r, m\<lparr>rstate := 0\<rparr>))"
  by (simp add: mem_read_def Let_def split: prod.split)

lemma mem_read_ED_fetch:
  assumes "rstate m = 0" and "M1 (cpu_z180 m) \<noteq> 0" and "snd (do_mem_read0 E m a False) = 0xED"
  shows "mem_read E m a = (fst (do_mem_read0 E m a False), 0xED, m\<lparr>rstate := 1\<rparr>)"
  using assms by (simp add: mem_read_alt Let_def)

lemma mem_read_4D_armed:
  assumes "rstate m = 1" and "snd (do_mem_read0 E m a False) = 0x4D"
  shows "mem_read E m a =
           (fst (do_mem_read0 E m a False) @ fst (reti_event E m), 0x4D,
            (snd (reti_event E m))\<lparr>rstate := 0\<rparr>)"
  using assms by (simp add: mem_read_alt Let_def)

lemma mem_read_not_armed:
  assumes "rstate m \<noteq> 1"
  shows "count_list (fst (mem_read E m a)) Call_z180_interrupt = 0"
  using assms by (simp add: mem_read_alt Let_def do_mem_read0_no_poll)

lemma mem_read_other_byte:
  assumes "snd (do_mem_read0 E m a False) \<noteq> 0x4D"
  shows "count_list (fst (mem_read E m a)) Call_z180_interrupt = 0"
  using assms by (simp add: mem_read_alt Let_def do_mem_read0_no_poll)

lemma mem_read_armed_other:
  assumes "rstate m = 1" and "snd (do_mem_read0 E m a False) \<noteq> 0x4D"
  shows "rstate (snd (snd (mem_read E m a))) =
           (if M1 (cpu_z180 m) \<noteq> 0 \<and>
               (snd (do_mem_read0 E m a False) = 0xDD \<or> snd (do_mem_read0 E m a False) = 0xFD \<or>
                snd (do_mem_read0 E m a False) = 0xCB)
            then 2 else 0)"
  using assms by (simp add: mem_read_alt Let_def)

text \<open>
  C3, as the code has it. From the idle detector state, an opcode fetch (\<open>M1\<close> set) that
  delivers 0xED fires nothing and arms the detector; if the very next read delivers
  0x4D, the RETI event fires exactly once (one call of \<^verbatim>\<open>z180_interrupt\<close>, with
  \<open>live_irq\<close> cleared) and the detector is idle again, whatever \<open>M1\<close> is for that
  second read (\<open>f\<close>): opcode fetch or not.
\<close>

theorem reti_after_ED:
  "rstate m = 0 \<and> M1 (cpu_z180 m) \<noteq> 0 \<and> snd (do_mem_read0 E m a1 False) = 0xED \<and>
   snd (do_mem_read0 E m a2 False) = 0x4D \<longrightarrow>
     fst (snd (mem_read E m a1)) = 0xED \<and>
     fst (snd (mem_read E (set_M1 (snd (snd (mem_read E m a1))) f) a2)) = 0x4D \<and>
     count_list (fst (mem_read E m a1)) Call_z180_interrupt = 0 \<and>
     rstate (snd (snd (mem_read E m a1))) = 1 \<and>
     count_list (fst (mem_read E (set_M1 (snd (snd (mem_read E m a1))) f) a2)) Call_z180_interrupt = 1 \<and>
     live_irq (snd (snd (mem_read E (set_M1 (snd (snd (mem_read E m a1))) f) a2))) = 0 \<and>
     rstate (snd (snd (mem_read E (set_M1 (snd (snd (mem_read E m a1))) f) a2))) = 0"
proof
  assume a: "rstate m = 0 \<and> M1 (cpu_z180 m) \<noteq> 0 \<and> snd (do_mem_read0 E m a1 False) = 0xED \<and>
   snd (do_mem_read0 E m a2 False) = 0x4D"
  let ?m1 = "set_M1 (m\<lparr>rstate := 1\<rparr>) f"
  have first: "mem_read E m a1 = (fst (do_mem_read0 E m a1 False), 0xED, m\<lparr>rstate := 1\<rparr>)"
    using a by (simp add: mem_read_ED_fetch)
  have st: "rstate ?m1 = 1" by (simp add: set_M1_def)
  have byte: "snd (do_mem_read0 E ?m1 a2 False) = 0x4D"
    using a by (simp add: set_M1_def do_mem_read0_cpu do_mem_read0_rstate)
  note second = mem_read_4D_armed [OF st byte]
  show "fst (snd (mem_read E m a1)) = 0xED \<and>
     fst (snd (mem_read E (set_M1 (snd (snd (mem_read E m a1))) f) a2)) = 0x4D \<and>
     count_list (fst (mem_read E m a1)) Call_z180_interrupt = 0 \<and>
     rstate (snd (snd (mem_read E m a1))) = 1 \<and>
     count_list (fst (mem_read E (set_M1 (snd (snd (mem_read E m a1))) f) a2)) Call_z180_interrupt = 1 \<and>
     live_irq (snd (snd (mem_read E (set_M1 (snd (snd (mem_read E m a1))) f) a2))) = 0 \<and>
     rstate (snd (snd (mem_read E (set_M1 (snd (snd (mem_read E m a1))) f) a2))) = 0"
    by (simp add: first second count_list_append do_mem_read0_no_poll reti_event_fires)
qed

text \<open>The definitions a run of \<open>mem_read\<close> on \<open>reti_board\<close> unfolds.\<close>

lemmas reti_eval =
  mem_read_def do_mem_read0_def z180_phys_read_def reti_event_def poll_irq_event_def
  io_return_def set_M1_def reti_board_def board0_def startup_def idle_env_def TRACE_MEM_def
  TRACE_IRQ_def Let_def

text \<open>ED at 0x102 and 4D at 0x103, both read as opcode fetches.\<close>

theorem reti_after_ED_witness:
  "rstate reti_board = 0 \<and> M1 (cpu_z180 reti_board) \<noteq> 0 \<and>
   snd (do_mem_read0 idle_env reti_board 0x102 False) = 0xED \<and>
   snd (do_mem_read0 idle_env reti_board 0x103 False) = 0x4D \<and>
   mem_read idle_env reti_board 0x102 = ([], 0xED, reti_board\<lparr>rstate := 1\<rparr>) \<and>
   fst (mem_read idle_env (set_M1 (reti_board\<lparr>rstate := 1\<rparr>) 1) 0x103) = [Call_z180_interrupt] \<and>
   rstate (snd (snd (mem_read idle_env (set_M1 (reti_board\<lparr>rstate := 1\<rparr>) 1) 0x103))) = 0"
  using reti_after_ED [of reti_board idle_env "0x102" "0x103" 1]
  by (simp add: reti_eval)

text \<open>
  The same two bytes with the second read not an opcode fetch (\<open>M1 = 0\<close>): the RETI
  event fires all the same.
\<close>

theorem reti_nonfetch_counterexample:
  "rstate reti_board = 0 \<and> M1 (cpu_z180 reti_board) = 1 \<and>
   mem_read idle_env reti_board 0x102 = ([], 0xED, reti_board\<lparr>rstate := 1\<rparr>) \<and>
   M1 (cpu_z180 (set_M1 (reti_board\<lparr>rstate := 1\<rparr>) 0)) = 0 \<and>
   fst (snd (mem_read idle_env (set_M1 (reti_board\<lparr>rstate := 1\<rparr>) 0) 0x103)) = 0x4D \<and>
   fst (mem_read idle_env (set_M1 (reti_board\<lparr>rstate := 1\<rparr>) 0) 0x103) = [Call_z180_interrupt]"
  by (simp add: reti_eval)

text \<open>
  C10, as the code has it. With the detector armed by an ED fetch, a read of a byte
  other than 0x4D, opcode fetch or not, fires nothing and leaves the armed state: the
  detector goes to the prefix state 2 if the read is an opcode fetch of DD, FD or CB,
  and to idle otherwise. In both cases the read after it, whatever it delivers and
  whatever its \<open>M1\<close>, does not fire the RETI event.
\<close>

theorem detector_leaves_armed_state:
  "rstate m = 1 \<and> snd (do_mem_read0 E m a False) \<noteq> 0x4D \<longrightarrow>
     count_list (fst (mem_read E m a)) Call_z180_interrupt = 0 \<and>
     rstate (snd (snd (mem_read E m a))) =
       (if M1 (cpu_z180 m) \<noteq> 0 \<and>
           (snd (do_mem_read0 E m a False) = 0xDD \<or> snd (do_mem_read0 E m a False) = 0xFD \<or>
            snd (do_mem_read0 E m a False) = 0xCB)
        then 2 else 0) \<and>
     count_list (fst (mem_read E (set_M1 (snd (snd (mem_read E m a))) f) a2)) Call_z180_interrupt = 0"
proof
  assume a: "rstate m = 1 \<and> snd (do_mem_read0 E m a False) \<noteq> 0x4D"
  have st: "rstate (snd (snd (mem_read E m a))) =
       (if M1 (cpu_z180 m) \<noteq> 0 \<and>
           (snd (do_mem_read0 E m a False) = 0xDD \<or> snd (do_mem_read0 E m a False) = 0xFD \<or>
            snd (do_mem_read0 E m a False) = 0xCB)
        then 2 else 0)"
    using a by (simp add: mem_read_armed_other)
  then have "rstate (set_M1 (snd (snd (mem_read E m a))) f) \<noteq> 1"
    by (simp add: set_M1_def)
  then have "count_list (fst (mem_read E (set_M1 (snd (snd (mem_read E m a))) f) a2)) Call_z180_interrupt = 0"
    by (rule mem_read_not_armed)
  then show "count_list (fst (mem_read E m a)) Call_z180_interrupt = 0 \<and>
     rstate (snd (snd (mem_read E m a))) =
       (if M1 (cpu_z180 m) \<noteq> 0 \<and>
           (snd (do_mem_read0 E m a False) = 0xDD \<or> snd (do_mem_read0 E m a False) = 0xFD \<or>
            snd (do_mem_read0 E m a False) = 0xCB)
        then 2 else 0) \<and>
     count_list (fst (mem_read E (set_M1 (snd (snd (mem_read E m a))) f) a2)) Call_z180_interrupt = 0"
    using a st by (simp add: mem_read_other_byte)
qed

text \<open>Armed, then ED read as data at 0x100, then 4D fetched at 0x103: no event.\<close>

theorem detector_leaves_armed_state_witness:
  "rstate (set_M1 (reti_board\<lparr>rstate := 1\<rparr>) 0) = 1 \<and>
   snd (do_mem_read0 idle_env (set_M1 (reti_board\<lparr>rstate := 1\<rparr>) 0) 0x100 False) \<noteq> 0x4D \<and>
   mem_read idle_env (set_M1 (reti_board\<lparr>rstate := 1\<rparr>) 0) 0x100 = ([], 0xED, set_M1 (reti_board\<lparr>rstate := 0\<rparr>) 0) \<and>
   mem_read idle_env (set_M1 (reti_board\<lparr>rstate := 0\<rparr>) 1) 0x103 = ([], 0x4D, set_M1 (reti_board\<lparr>rstate := 0\<rparr>) 1)"
  using detector_leaves_armed_state [of "set_M1 (reti_board\<lparr>rstate := 1\<rparr>) 0" idle_env "0x100" 1 "0x103"]
  by (simp add: reti_eval)

text \<open>
  Armed, then DD fetched at 0x101: the detector is in state 2, not idle. From state 2
  the ED fetched at 0x102 does not arm the detector, where from idle it does.
\<close>

theorem prefix_fetch_counterexample:
  "rstate (reti_board\<lparr>rstate := 1\<rparr>) = 1 \<and> M1 (cpu_z180 (reti_board\<lparr>rstate := 1\<rparr>)) = 1 \<and>
   mem_read idle_env (reti_board\<lparr>rstate := 1\<rparr>) 0x101 = ([], 0xDD, reti_board\<lparr>rstate := 2\<rparr>) \<and>
   (0xDD :: u8) \<noteq> 0x4D \<and> rstate (reti_board\<lparr>rstate := 2\<rparr>) \<noteq> 0 \<and>
   mem_read idle_env (reti_board\<lparr>rstate := 2\<rparr>) 0x102 = ([], 0xED, reti_board\<lparr>rstate := 0\<rparr>) \<and>
   mem_read idle_env (reti_board\<lparr>rstate := 0\<rparr>) 0x102 = ([], 0xED, reti_board\<lparr>rstate := 1\<rparr>)"
  by (simp add: reti_eval)

subsection \<open>The floppy window of the port decode\<close>

lemma fdc_window_not_ide: "0x70 \<le> (a :: u16) \<Longrightarrow> (a \<le> 0x17) = False"
  by (simp add: word_le_nat_alt)

lemma low3_of_low8: "((a :: u16) AND 0xFF) AND 7 = a AND 7"
  by (simp add: word_bw_assocs)

text \<open>
  For a port the I/O controller does not claim: reads of 0x70 to 0x76 and writes of
  0x70 to 0x77 go to the floppy handler with the low three bits of the port; a read of
  0x77 goes to the unmapped fallback.
\<close>

lemma io_read_fdc:
  assumes "\<not> z180_iospace E (ext m) addr"
    and "0x70 \<le> addr AND 0xFF" and "addr AND 0xFF < 0x77"
  shows "io_read E m addr =
           ((if trace m AND TRACE_IO \<noteq> 0 then [Stderr_io_read addr] else []) @
              fst (fdc_read E m (ucast (addr AND 7))),
            snd (fdc_read E m (ucast (addr AND 7))))"
  using assms
  by (simp add: io_read_def Let_def fdc_window_not_ide low3_of_low8 split: prod.split)

lemma io_write_fdc:
  assumes "\<not> z180_iospace E (ext m) addr"
    and "0x70 \<le> addr AND 0xFF" and "addr AND 0xFF < 0x78"
  shows "io_write E m addr val =
           ((if trace m AND TRACE_IO \<noteq> 0 then [Stderr_io_write addr val] else []) @
              fst (fdc_write E m (ucast (addr AND 7)) val),
            snd (fdc_write E m (ucast (addr AND 7)) val))"
  using assms
  by (simp add: io_write_def Let_def fdc_window_not_ide low3_of_low8 split: prod.split)

lemma io_read_0x77:
  assumes "\<not> z180_iospace E (ext m) addr" and "addr AND 0xFF = 0x77"
  shows "io_read E m addr =
           ((if trace m AND TRACE_IO \<noteq> 0 then [Stderr_io_read addr] else []) @
            (if trace m AND TRACE_UNK \<noteq> 0 then [Stderr_unknown_read 0x77] else []), 0xFF, m)"
  using assms by (simp add: io_read_def Let_def)

text \<open>
  C5. The read decode tests \<open>addr < 0x77\<close> where the write decode tests
  \<open>addr < 0x78\<close>: a read of port 0x77 does not reach \<^verbatim>\<open>fdc_read\<close> (which would print
  its line and return 0x78 for register 7) and returns 0xFF from the unmapped fallback.
  A read of 0x76 and a write of 0x77 do reach the floppy handler.
\<close>

theorem fdc_port_0x77_read_unmapped:
  "\<not> z180_iospace idle_env (ext board0) 0x77 \<and>
   io_read idle_env board0 0x77 = ([], 0xFF, board0) \<and>
   fdc_read idle_env board0 7 = ([Stderr_fdc_read 7, Stderr_fdc_read_value 0x78], 0x78, board0) \<and>
   io_read idle_env board0 0x76 = fdc_read idle_env board0 6 \<and>
   io_write idle_env board0 0x77 0x12 = fdc_write idle_env board0 7 0x12 \<and>
   io_write idle_env board0 0x77 0x12 = ([Stderr_fdc_write 7 0x12], board0)"
  by (simp add: io_read_def io_write_def fdc_read_def fdc_write_def board0_def startup_def
      idle_env_def TRACE_IO_def TRACE_UNK_def Let_def)

subsection \<open>The scheduler: DMA before CPU\<close>

lemma interleaved_prev:
  "p \<noteq> Some (Call_z180_dma 0) \<Longrightarrow> interleaved p tr = interleaved None tr"
  by (cases tr) simp_all

lemma interleaved_append:
  "interleaved p xs \<Longrightarrow> interleaved None ys \<Longrightarrow> interleaved p (xs @ ys)"
proof (induction xs arbitrary: p)
  case Nil
  then show ?case using interleaved_prev [of p ys] by simp
next
  case (Cons c xs)
  then show ?case by simp
qed

lemma cycle_step_trace:
  "fst (cycle_step E m) =
     (if fst (z180_dma E m) = 0
      then [Call_z180_dma 0, Call_Z180Execute (fst (Z180Execute E (snd (z180_dma E m))))]
      else [Call_z180_dma (fst (z180_dma E m))])"
  by (simp add: cycle_step_def split: prod.split)

lemma cycle_step_interleaved: "interleaved None (fst (cycle_step E m))"
  by (simp add: cycle_step_trace)

lemma cycle_loop_Suc:
  "cycle_loop E (Suc k) states m =
     (if states <s ucast tstate_steps then
        (fst (cycle_step E m) @
           fst (cycle_loop E k (states + fst (snd (cycle_step E m))) (snd (snd (cycle_step E m)))),
         snd (cycle_loop E k (states + fst (snd (cycle_step E m))) (snd (snd (cycle_step E m)))))
      else ([], Some (states, m)))"
  by (simp split: prod.split)

lemma cycle_loop_interleaved: "interleaved None (fst (cycle_loop E fuel states m))"
proof (induction fuel arbitrary: states m)
  case 0
  then show ?case by simp
next
  case (Suc k)
  show ?case
    unfolding cycle_loop_Suc
    by (simp add: interleaved_append cycle_step_interleaved Suc.IH)
qed

lemma minor_tick_trace:
  "fst (minor_tick E fuel s) =
     fst (cycle_loop E fuel (fst s) (snd s)) @
     (case snd (cycle_loop E fuel (fst s) (snd s)) of None \<Rightarrow> []
      | Some r \<Rightarrow> [Call_z180_event (fst r)])"
  by (simp add: minor_tick_def split: prod.split option.split)

lemma minor_tick_interleaved: "interleaved None (fst (minor_tick E fuel s))"
  unfolding minor_tick_trace
  by (rule interleaved_append) (simp_all add: cycle_loop_interleaved split: option.split)

lemma repeat_Suc:
  "repeat (Suc n) body s =
     (case snd (body s) of None \<Rightarrow> body s
      | Some s1 \<Rightarrow> (fst (body s) @ fst (repeat n body s1), snd (repeat n body s1)))"
  by (simp split: prod.split option.split)

lemma repeat_interleaved:
  assumes "\<And>s. interleaved None (fst (body s))"
  shows "interleaved None (fst (repeat n body s))"
proof (induction n arbitrary: s)
  case 0
  then show ?case by simp
next
  case (Suc n)
  show ?case
    unfolding repeat_Suc
    by (simp add: interleaved_append assms Suc.IH split: option.split)
qed

lemma fdc_group_trace:
  "fst (fdc_group E fuel s) =
     fst (repeat 10 (minor_tick E fuel) s) @
     (case snd (repeat 10 (minor_tick E fuel) s) of None \<Rightarrow> [] | Some r \<Rightarrow> [Call_fdc_tick])"
  by (simp add: fdc_group_def split: prod.split option.split)

lemma fdc_group_interleaved: "interleaved None (fst (fdc_group E fuel s))"
  unfolding fdc_group_trace
  by (rule interleaved_append)
    (simp_all add: repeat_interleaved minor_tick_interleaved split: option.split)

lemma work_20ms_interleaved: "interleaved None (fst (work_20ms E fuel m))"
  by (simp add: work_20ms_def repeat_interleaved fdc_group_interleaved)

lemma service_int_recalc_trace:
  "fst (service_int_recalc E m) =
     (if int_recalc m \<noteq> 0 \<and> live_irq m = 0 then [Call_poll_irq_event] else [])"
  by (simp add: service_int_recalc_def Let_def)

lemma main_loop_pass_trace:
  "fst (main_loop_pass E fuel m) =
     fst (work_20ms E fuel m) @
     (case snd (work_20ms E fuel m) of None \<Rightarrow> []
      | Some r \<Rightarrow> (if fast (snd r) = 0 then [Call_nanosleep] else []) @
                   fst (service_int_recalc E (snd r)))"
  by (simp add: main_loop_pass_def Let_def split: prod.split option.split)

lemma main_loop_pass_interleaved: "interleaved None (fst (main_loop_pass E fuel m))"
  unfolding main_loop_pass_trace
  by (rule interleaved_append)
    (simp_all add: work_20ms_interleaved service_int_recalc_trace split: option.split)

text \<open>
  C8. One iteration of the innermost loop calls the DMA engine first, and calls the
  CPU after it exactly when the DMA engine reported zero cycles. So in the calls of a
  minor tick, and of a whole pass of the main loop (for any fuel, also when the loop is
  cut short), a call is \<^verbatim>\<open>Z180Execute\<close> exactly when the call right before it is a
  \<^verbatim>\<open>z180_dma\<close> that reported zero: the CPU never runs in an iteration whose DMA call
  reported cycles.
\<close>

theorem dma_before_cpu:
  "fst (cycle_step E m) =
     (if fst (z180_dma E m) = 0
      then [Call_z180_dma 0, Call_Z180Execute (fst (Z180Execute E (snd (z180_dma E m))))]
      else [Call_z180_dma (fst (z180_dma E m))]) \<and>
   interleaved None (fst (minor_tick E fuel s)) \<and>
   interleaved None (fst (main_loop_pass E fuel m))"
  by (simp add: cycle_step_trace minor_tick_interleaved main_loop_pass_interleaved)

text \<open>The definitions a minor tick on \<open>dma_board\<close> unfolds.\<close>

lemmas sched_eval =
  minor_tick_def cycle_step_def dma_env_def dma_board_def idle_env_def startup_def
  tstate_steps_def word_sless_alt

text \<open>
  Two DMA bursts, then an idle DMA call followed by one instruction, which ends the
  tick. A CPU call after a busy DMA call, or with no DMA call before it, is not
  interleaved.
\<close>

theorem dma_before_cpu_witness:
  "fst (minor_tick dma_env (Suc (Suc (Suc 0))) (0, dma_board)) =
     [Call_z180_dma 300, Call_z180_dma 300, Call_z180_dma 0, Call_Z180Execute 500,
      Call_z180_event 1100] \<and>
   interleaved None (fst (minor_tick dma_env (Suc (Suc (Suc 0))) (0, dma_board))) \<and>
   \<not> interleaved None [Call_z180_dma 300, Call_Z180Execute 500] \<and>
   \<not> interleaved None [Call_Z180Execute 500, Call_z180_dma 0]"
  using dma_before_cpu [of dma_env dma_board "Suc (Suc (Suc 0))" "(0, dma_board)"]
  by (simp add: sched_eval)

subsection \<open>The scheduler: the interrupt re-poll\<close>

lemma cycle_loop_quiet:
  "filter is_z180_event (fst (cycle_loop E fuel states m)) = [] \<and>
   count_list (fst (cycle_loop E fuel states m)) Call_poll_irq_event = 0"
proof (induction fuel arbitrary: states m)
  case 0
  then show ?case by simp
next
  case (Suc k)
  show ?case
    unfolding cycle_loop_Suc
    by (simp add: count_list_append cycle_step_trace Suc.IH)
qed

lemma minor_tick_snd:
  "snd (minor_tick E fuel s) =
     map_option (\<lambda>r. (fst r - ucast tstate_steps, z180_event E (fst r) (snd r)))
       (snd (cycle_loop E fuel (fst s) (snd s)))"
  by (simp add: minor_tick_def split: prod.split option.split)

lemma minor_tick_counts:
  "count_list (fst (minor_tick E fuel s)) Call_poll_irq_event = 0"
  "snd (minor_tick E fuel s) = Some r \<Longrightarrow>
     length (filter is_z180_event (fst (minor_tick E fuel s))) = 1"
proof -
  show "count_list (fst (minor_tick E fuel s)) Call_poll_irq_event = 0"
    by (simp add: minor_tick_trace count_list_append cycle_loop_quiet split: option.split)
  assume "snd (minor_tick E fuel s) = Some r"
  then obtain r0 where "snd (cycle_loop E fuel (fst s) (snd s)) = Some r0"
    unfolding minor_tick_snd by (cases "snd (cycle_loop E fuel (fst s) (snd s))") simp_all
  then show "length (filter is_z180_event (fst (minor_tick E fuel s))) = 1"
    by (simp add: minor_tick_trace cycle_loop_quiet)
qed

lemma repeat_count:
  assumes "\<And>s r. snd (body s) = Some r \<Longrightarrow> length (filter P (fst (body s))) = k"
  shows "snd (repeat n body s) = Some r \<Longrightarrow> length (filter P (fst (repeat n body s))) = n * k"
proof (induction n arbitrary: s)
  case 0
  then show ?case by simp
next
  case (Suc n)
  note p = Suc.prems [unfolded repeat_Suc]
  from p obtain s1 where b: "snd (body s) = Some s1"
    by (cases "snd (body s)") simp_all
  with p have r: "snd (repeat n body s1) = Some r"
    by simp
  have "length (filter P (fst (body s))) = k"
    using b by (rule assms)
  then show ?case
    unfolding repeat_Suc using b Suc.IH [OF r] by simp
qed

lemma repeat_none_of:
  assumes "\<And>s. count_list (fst (body s)) c = 0"
  shows "count_list (fst (repeat n body s)) c = 0"
proof (induction n arbitrary: s)
  case 0
  then show ?case by simp
next
  case (Suc n)
  show ?case
    unfolding repeat_Suc
    by (simp add: count_list_append assms Suc.IH split: option.split)
qed

lemma fdc_group_snd:
  "snd (fdc_group E fuel s) =
     map_option (\<lambda>r. (fst r, fdc_tick E (snd r))) (snd (repeat 10 (minor_tick E fuel) s))"
  by (simp add: fdc_group_def split: prod.split option.split)

lemma fdc_group_counts:
  "count_list (fst (fdc_group E fuel s)) Call_poll_irq_event = 0"
  "snd (fdc_group E fuel s) = Some r \<Longrightarrow>
     length (filter is_z180_event (fst (fdc_group E fuel s))) = 10"
proof -
  show "count_list (fst (fdc_group E fuel s)) Call_poll_irq_event = 0"
    by (simp add: fdc_group_trace count_list_append repeat_none_of minor_tick_counts(1)
        split: option.split)
  assume "snd (fdc_group E fuel s) = Some r"
  then obtain r0 where d: "snd (repeat 10 (minor_tick E fuel) s) = Some r0"
    unfolding fdc_group_snd by (cases "snd (repeat 10 (minor_tick E fuel) s)") simp_all
  have "length (filter is_z180_event (fst (repeat 10 (minor_tick E fuel) s))) = 10 * 1"
    using d by (rule repeat_count [rotated]) (rule minor_tick_counts(2))
  then show "length (filter is_z180_event (fst (fdc_group E fuel s))) = 10"
    using d by (simp add: fdc_group_trace)
qed

lemma work_20ms_counts:
  "count_list (fst (work_20ms E fuel m)) Call_poll_irq_event = 0"
  "snd (work_20ms E fuel m) = Some r \<Longrightarrow>
     length (filter is_z180_event (fst (work_20ms E fuel m))) = 500"
proof -
  show "count_list (fst (work_20ms E fuel m)) Call_poll_irq_event = 0"
    by (simp add: work_20ms_def repeat_none_of fdc_group_counts(1))
  assume "snd (work_20ms E fuel m) = Some r"
  then have d: "snd (repeat 50 (fdc_group E fuel) (0, m)) = Some r"
    by (simp add: work_20ms_def)
  have "length (filter is_z180_event (fst (repeat 50 (fdc_group E fuel) (0, m)))) = 50 * 10"
    using d by (rule repeat_count [rotated]) (rule fdc_group_counts(2))
  then show "length (filter is_z180_event (fst (work_20ms E fuel m))) = 500"
    by (simp add: work_20ms_def)
qed

lemma io_return_int_recalc:
  "int_recalc m \<noteq> 0 \<Longrightarrow> int_recalc (io_return m r) \<noteq> 0"
  by (cases r) (simp add: io_return_def recalc_interrupts_def Let_def)

lemma poll_irq_event_int_recalc:
  "int_recalc m \<noteq> 0 \<Longrightarrow> int_recalc (snd (poll_irq_event E m)) \<noteq> 0"
  by (simp add: poll_irq_event_def io_return_int_recalc)

lemma service_int_recalc_flag:
  assumes "int_recalc m \<noteq> 0"
  shows "(int_recalc (snd (service_int_recalc E m)) = 0) =
           (IFF1 (cpu_z180 (snd (service_int_recalc E m))) OR
            IFF2 (cpu_z180 (snd (service_int_recalc E m))) = 0)"
  using assms poll_irq_event_int_recalc [OF assms, of E]
  by (simp add: service_int_recalc_def Let_def)

lemma main_loop_pass_Some:
  assumes "main_loop_pass E fuel m = (tr, Some m')"
  shows "\<exists>tr1 states m1. work_20ms E fuel m = (tr1, Some (states, m1)) \<and>
           tr = tr1 @ (if fast m1 = 0 then [Call_nanosleep] else []) @ fst (service_int_recalc E m1) \<and>
           m' = snd (service_int_recalc E m1)"
proof -
  obtain tr1 r where w: "work_20ms E fuel m = (tr1, r)"
    by (cases "work_20ms E fuel m")
  with assms obtain states m1 where r: "r = Some (states, m1)"
    by (cases r) (auto simp add: main_loop_pass_def)
  have "tr = tr1 @ (if fast m1 = 0 then [Call_nanosleep] else []) @ fst (service_int_recalc E m1) \<and>
        m' = snd (service_int_recalc E m1)"
    using assms w r by (auto simp add: main_loop_pass_def Let_def split: prod.splits)
  then show ?thesis
    using w r by blast
qed

text \<open>
  C4, as the code has it. A pass of the main loop that completes is the 500 minor
  ticks (500 calls of \<^verbatim>\<open>z180_event\<close>), in which the scheduler never polls, then the
  pacing sleep unless \<open>fast\<close> is set, then one run of the \<^verbatim>\<open>if (int_recalc)\<close> block:
  the flag is examined once per pass, not once per minor tick. That block does nothing
  when the flag is clear; when the flag is set it polls the interrupt controller
  exactly if no interrupt is live, and afterwards the flag is clear exactly if neither
  \<open>IFF1\<close> nor \<open>IFF2\<close> is set, and stays set otherwise.
\<close>

theorem recalc_serviced_once_per_pass:
  "(main_loop_pass E fuel m = (tr, Some m') \<longrightarrow>
      (\<exists>tr1 states m1. work_20ms E fuel m = (tr1, Some (states, m1)) \<and>
         length (filter is_z180_event tr1) = 500 \<and>
         count_list tr1 Call_poll_irq_event = 0 \<and>
         tr = tr1 @ (if fast m1 = 0 then [Call_nanosleep] else []) @ fst (service_int_recalc E m1) \<and>
         m' = snd (service_int_recalc E m1))) \<and>
   (int_recalc m = 0 \<longrightarrow> service_int_recalc E m = ([], m)) \<and>
   (int_recalc m \<noteq> 0 \<longrightarrow>
      fst (service_int_recalc E m) = (if live_irq m = 0 then [Call_poll_irq_event] else []) \<and>
      (int_recalc (snd (service_int_recalc E m)) = 0) =
        (IFF1 (cpu_z180 (snd (service_int_recalc E m))) OR
         IFF2 (cpu_z180 (snd (service_int_recalc E m))) = 0))"
proof (intro conjI impI)
  assume p: "main_loop_pass E fuel m = (tr, Some m')"
  from main_loop_pass_Some [OF p] obtain tr1 states m1 where
    w: "work_20ms E fuel m = (tr1, Some (states, m1))" and
    t: "tr = tr1 @ (if fast m1 = 0 then [Call_nanosleep] else []) @ fst (service_int_recalc E m1)" and
    s: "m' = snd (service_int_recalc E m1)"
    by blast
  have "length (filter is_z180_event tr1) = 500" "count_list tr1 Call_poll_irq_event = 0"
    using work_20ms_counts [of E fuel m] w by simp_all
  with w t s show "\<exists>tr1 states m1. work_20ms E fuel m = (tr1, Some (states, m1)) \<and>
         length (filter is_z180_event tr1) = 500 \<and>
         count_list tr1 Call_poll_irq_event = 0 \<and>
         tr = tr1 @ (if fast m1 = 0 then [Call_nanosleep] else []) @ fst (service_int_recalc E m1) \<and>
         m' = snd (service_int_recalc E m1)"
    by blast
next
  assume "int_recalc m = 0"
  then show "service_int_recalc E m = ([], m)"
    by (simp add: service_int_recalc_def)
next
  assume "int_recalc m \<noteq> 0"
  then show "fst (service_int_recalc E m) = (if live_irq m = 0 then [Call_poll_irq_event] else [])"
    by (simp add: service_int_recalc_trace)
next
  assume "int_recalc m \<noteq> 0"
  then show "(int_recalc (snd (service_int_recalc E m)) = 0) =
        (IFF1 (cpu_z180 (snd (service_int_recalc E m))) OR
         IFF2 (cpu_z180 (snd (service_int_recalc E m))) = 0)"
    by (rule service_int_recalc_flag)
qed

text \<open>The idle environment: every minor tick is one instruction.\<close>

lemma idle_minor_tick:
  "minor_tick idle_env (Suc 0) (0, m) =
     ([Call_z180_dma 0, Call_Z180Execute 737, Call_z180_event 737], Some (0, m))"
  by (simp add: minor_tick_def cycle_step_def idle_env_def tstate_steps_def word_sless_alt)

lemma repeat_fixed:
  "body s = (tr, Some s) \<Longrightarrow> repeat n body s = (concat (replicate n tr), Some s)"
  by (induction n) simp_all

lemma idle_fdc_group:
  "fdc_group idle_env (Suc 0) (0, m) =
     (concat (replicate 10 [Call_z180_dma 0, Call_Z180Execute 737, Call_z180_event 737]) @
        [Call_fdc_tick], Some (0, m))"
proof -
  have "fdc_tick idle_env m = m" by (simp add: idle_env_def)
  then show ?thesis
    by (simp add: fdc_group_def repeat_fixed [where body = "minor_tick idle_env (Suc 0)" and s = "(0, m)", OF idle_minor_tick])
qed

lemma idle_work_20ms:
  "work_20ms idle_env (Suc 0) m =
     (concat (replicate 50
        (concat (replicate 10 [Call_z180_dma 0, Call_Z180Execute 737, Call_z180_event 737]) @
         [Call_fdc_tick])), Some (0, m))"
  by (simp add: work_20ms_def repeat_fixed [where body = "fdc_group idle_env (Suc 0)" and s = "(0, m)", OF idle_fdc_group])

lemma recalc_board_service:
  "service_int_recalc idle_env recalc_board = ([Call_poll_irq_event], recalc_board)"
  by (simp add: service_int_recalc_def poll_irq_event_def io_return_def recalc_board_def
      board0_def startup_def idle_env_def Let_def)

lemma recalc_board_pass:
  "main_loop_pass idle_env (Suc 0) recalc_board =
     (fst (work_20ms idle_env (Suc 0) recalc_board) @ [Call_poll_irq_event], Some recalc_board)"
proof -
  have "fast recalc_board = 1"
    by (simp add: recalc_board_def board0_def startup_def)
  then show ?thesis
    by (simp add: main_loop_pass_def idle_work_20ms recalc_board_service)
qed

text \<open>
  On \<open>recalc_board\<close> the pass completes with one instruction per minor tick; the flag
  is set, no interrupt is live and \<open>IFF1\<close> is set, so the block polls once and the flag
  stays set. With the flag clear the block does nothing.
\<close>

theorem recalc_serviced_once_per_pass_witness:
  "main_loop_pass idle_env (Suc 0) recalc_board =
     (fst (work_20ms idle_env (Suc 0) recalc_board) @ [Call_poll_irq_event], Some recalc_board) \<and>
   int_recalc recalc_board \<noteq> 0 \<and> live_irq recalc_board = 0 \<and>
   IFF1 (cpu_z180 recalc_board) OR IFF2 (cpu_z180 recalc_board) \<noteq> 0 \<and>
   service_int_recalc idle_env recalc_board = ([Call_poll_irq_event], recalc_board) \<and>
   int_recalc (recalc_board\<lparr>int_recalc := 0\<rparr>) = 0 \<and>
   service_int_recalc idle_env (recalc_board\<lparr>int_recalc := 0\<rparr>) = ([], recalc_board\<lparr>int_recalc := 0\<rparr>)"
  using recalc_serviced_once_per_pass [of idle_env "Suc 0" recalc_board
      "fst (work_20ms idle_env (Suc 0) recalc_board) @ [Call_poll_irq_event]" recalc_board]
    recalc_serviced_once_per_pass [of idle_env "Suc 0" "recalc_board\<lparr>int_recalc := 0\<rparr>"]
  by (simp add: recalc_board_pass recalc_board_service)
    (simp add: recalc_board_def board0_def startup_def)

text \<open>
  The flag is set and no interrupt is live during all 500 minor ticks of the pass, and
  the scheduler polls once, at the end of the pass.
\<close>

theorem recalc_check_per_minor_tick_counterexample:
  "int_recalc recalc_board = 1 \<and> live_irq recalc_board = 0 \<and>
   snd (main_loop_pass idle_env (Suc 0) recalc_board) = Some recalc_board \<and>
   length (filter is_z180_event (fst (main_loop_pass idle_env (Suc 0) recalc_board))) = 500 \<and>
   count_list (fst (main_loop_pass idle_env (Suc 0) recalc_board)) Call_poll_irq_event = 1"
proof -
  have d: "snd (work_20ms idle_env (Suc 0) recalc_board) = Some (0, recalc_board)"
    by (simp add: idle_work_20ms)
  have "int_recalc recalc_board = 1 \<and> live_irq recalc_board = 0"
    by (simp add: recalc_board_def board0_def startup_def)
  then show ?thesis
    using work_20ms_counts(1) [of idle_env "Suc 0" recalc_board] work_20ms_counts(2) [OF d]
    by (simp add: recalc_board_pass count_list_append)
qed

subsection \<open>The chip-select cache between PPI writes\<close>

text \<open>
  With an SD card attached, the cached select equals the low three bits of port C in
  the start state (\<open>startup_chip_select\<close>) and after every port write, port read and
  memory access of the CPU: the hypothesis of \<open>chip_select_events\<close> holds whenever
  the PPI is written.
\<close>

lemma ppi_write_cache:
  assumes "sdcard m"
  shows "sdcard (snd (ppi_write E m addr val)) \<and>
         old_cs (snd (ppi_write E m addr val)) = chip_select (snd (ppi_write E m addr val))"
proof -
  have sd: "sdcard (snd (ppi_store m addr val))"
    using assms by (simp add: ppi_store_frame)
  show ?thesis
    by (simp add: ppi_write_alt ppi_recalc_events [OF sd])
qed

lemma io_return_cache:
  "sdcard (io_return m r) = sdcard m \<and> old_cs (io_return m r) = old_cs m \<and>
   port_c (io_return m r) = port_c m"
  by (cases r) (simp add: io_return_def recalc_interrupts_def Let_def)

lemma low2_of_low8: "((a :: u16) AND 0xFF) AND 3 = a AND 3"
  by (simp add: word_bw_assocs)

lemma io_write_cache:
  assumes "sdcard m" and "old_cs m = chip_select m"
  shows "sdcard (snd (io_write E m addr val)) \<and>
         old_cs (snd (io_write E m addr val)) = chip_select (snd (io_write E m addr val))"
  using assms ppi_write_cache [OF assms(1), of E "ucast (addr AND 3)" val]
  by (auto simp add: io_write_def io_return_cache my_ide_write_def fdc_write_def chip_select_def
      low2_of_low8 Let_def split: prod.split)

lemma io_read_cache:
  assumes "sdcard m" and "old_cs m = chip_select m"
  shows "sdcard (snd (snd (io_read E m addr))) \<and>
         old_cs (snd (snd (io_read E m addr))) = chip_select (snd (snd (io_read E m addr)))"
  using assms
  by (simp add: io_read_def io_return_cache my_ide_read_def fdc_read_def chip_select_def
      Let_def split: prod.split)

lemma mem_write_cache:
  assumes "sdcard m" and "old_cs m = chip_select m"
  shows "sdcard (snd (mem_write E m addr val)) \<and>
         old_cs (snd (mem_write E m addr val)) = chip_select (snd (mem_write E m addr val))"
  using assms
  by (simp add: mem_write_def mem_write0_def z180_phys_write_def chip_select_def
      Let_def split: prod.split)

lemma mem_read_cache:
  assumes "sdcard m" and "old_cs m = chip_select m"
  shows "sdcard (snd (snd (mem_read E m addr))) \<and>
         old_cs (snd (snd (mem_read E m addr))) = chip_select (snd (snd (mem_read E m addr)))"
  using assms
  by (simp add: mem_read_alt reti_event_def poll_irq_event_def io_return_cache chip_select_def
      Let_def)

end
